theory Spec2Isabelle
  imports Main
begin

section \<open>The request handler\<close>

text \<open>
  \<^verbatim>\<open>
  class MyHttpRequestHandler(http.server.SimpleHTTPRequestHandler):
      def do_GET(self):
          return http.server.SimpleHTTPRequestHandler.do_GET(self)
  \<close>
  A handler method runs on the handler object \<open>self\<close>: the parsed request, the
  connection it answers on and, through them, the file system it reads. It is a
  state-passing function: it takes that state and gives back its return value with
  the state it leaves behind (the bytes written to the socket are part of it).
  \<open>http.server.SimpleHTTPRequestHandler.do_GET\<close> belongs to the Python standard
  library, not to this program, so the override takes it as a parameter.
\<close>

type_synonym ('h, 'a) handler_method = "'h \<Rightarrow> 'a \<times> 'h"

definition do_GET :: "('h, 'a) handler_method \<Rightarrow> ('h, 'a) handler_method" where
  "do_GET SimpleHTTPRequestHandler_do_GET self = SimpleHTTPRequestHandler_do_GET self"

section \<open>The server bootstrap\<close>

text \<open>
  \<^verbatim>\<open>
  def run_server(port=8000):
      with socketserver.TCPServer(("", port), MyHttpRequestHandler) as server:
          print(f"Serving at port {port}")
          server.serve_forever()

  if __name__ == "__main__":
      run_server()
  \<close>
\<close>

subsection \<open>Formatting the port\<close>

text \<open>\<open>f"{port}"\<close> of a Python int: its decimal digits, with a minus sign when negative.\<close>

fun digits :: "nat \<Rightarrow> string" where
  "digits n =
     (if n < 10 then [''0123456789'' ! n]
      else digits (n div 10) @ [''0123456789'' ! (n mod 10)])"

declare digits.simps [simp del]

definition str :: "int \<Rightarrow> string" where
  "str i = (if i < 0 then ''-'' @ digits (nat (- i)) else digits (nat i))"

subsection \<open>Calls into the library\<close>

text \<open>
  A call either returns, raises or never returns. The one exception told apart is
  \<open>OSError\<close>, which is what creating, binding and listening on a socket raise
  (for example \<open>[Errno 98] Address already in use\<close>).
\<close>

datatype exn = OSError string

datatype 'a result = Returns 'a | Raises exn | Never_returns

text \<open>
  What \<open>socketserver\<close> and the operating system answer is not decided by the program:
  it is the environment the program runs in. \<open>TCPServer E addr\<close> is the outcome of
  constructing \<open>socketserver.TCPServer(addr, MyHttpRequestHandler)\<close>, which binds
  and listens; \<open>serve_forever E\<close> is the outcome of \<open>server.serve_forever()\<close>.
\<close>

record env =
  TCPServer :: "string \<times> int \<Rightarrow> unit result"
  serve_forever :: "unit result"

text \<open>
  The process: the lines printed on standard output and standard error, and the log of
  the calls the program made, in order. \<open>exit_call\<close> is the \<open>__exit__\<close> of the
  \<open>with\<close> statement, which closes the server. \<open>print\<close> is taken to succeed: it
  appends its line to standard output.
\<close>

datatype call =
    TCPServer_call "string \<times> int" string
  | print_call string
  | serve_forever_call
  | exit_call

record process =
  stdout :: "string list"
  stderr :: "string list"
  calls :: "call list"

definition start :: process where
  "start = \<lparr>stdout = [], stderr = [], calls = []\<rparr>"

definition called :: "call \<Rightarrow> process \<Rightarrow> process" where
  "called c p = p\<lparr>calls := calls p @ [c]\<rparr>"

definition print :: "string \<Rightarrow> process \<Rightarrow> process" where
  "print line p = (called (print_call line) p)\<lparr>stdout := stdout p @ [line]\<rparr>"

text \<open>The addresses the program asked \<open>socketserver.TCPServer\<close> to bind, read off the log.\<close>

fun addresses :: "call list \<Rightarrow> (string \<times> int) list" where
  "addresses [] = []"
| "addresses (TCPServer_call addr h # cs) = addr # addresses cs"
| "addresses (c # cs) = addresses cs"

subsection \<open>\<open>run_server\<close>\<close>

text \<open>
  The \<open>with\<close> statement evaluates the constructor first: when that raises, nothing of
  the body runs and there is no \<open>__exit__\<close>. Otherwise the body runs, and \<open>__exit__\<close>
  runs when the body returns and when it raises; the exception then goes on to the
  caller. A body that never returns never reaches \<open>__exit__\<close>.
\<close>

definition run_server :: "env \<Rightarrow> int \<Rightarrow> process \<Rightarrow> unit result \<times> process" where
  "run_server E port p =
     (let p1 = called (TCPServer_call ('''', port) ''MyHttpRequestHandler'') p in
      case TCPServer E ('''', port) of
        Raises e \<Rightarrow> (Raises e, p1)
      | Never_returns \<Rightarrow> (Never_returns, p1)
      | Returns server \<Rightarrow>
          (let p2 = print (''Serving at port '' @ str port) p1;
               p3 = called serve_forever_call p2
           in case serve_forever E of
                Never_returns \<Rightarrow> (Never_returns, p3)
              | Raises e \<Rightarrow> (Raises e, called exit_call p3)
              | Returns u \<Rightarrow> (Returns (), called exit_call p3)))"

subsection \<open>The script\<close>

text \<open>
  Run as a script, the module calls \<open>run_server()\<close>, so with the default port 8000.
  \<open>argv\<close> is the command line: the module never reads it. When the call returns the
  interpreter exits with status 0; an exception nobody caught makes it print the
  traceback on standard error (its first line and its last line, which names the
  exception, are modelled; the stack frames between them are left out) and exit with
  status 1. While the call does not return the process is running.
\<close>

datatype status = Exited nat | Running

definition traceback :: "exn \<Rightarrow> string list" where
  "traceback e =
     (case e of OSError msg \<Rightarrow>
        [''Traceback (most recent call last):'', ''OSError: '' @ msg])"

definition main :: "env \<Rightarrow> string list \<Rightarrow> status \<times> process" where
  "main E argv =
     (case run_server E 8000 start of (r, p) \<Rightarrow>
        (case r of
           Returns u \<Rightarrow> (Exited 0, p)
         | Raises e \<Rightarrow> (Exited 1, p\<lparr>stderr := stderr p @ traceback e\<rparr>)
         | Never_returns \<Rightarrow> (Running, p)))"

section \<open>The override of \<open>do_GET\<close> is a pass-through\<close>

text \<open>
  C1. For every GET request, the overridden \<open>do_GET\<close> of \<open>MyHttpRequestHandler\<close>
  behaves as the \<open>do_GET\<close> of \<open>SimpleHTTPRequestHandler\<close> does: whatever the base
  method is, the override is the same function, so on every handler state it gives the
  same return value and leaves the same state (the same response on the socket).
\<close>

theorem do_GET_pass_through:
  "do_GET base = base \<and> fst (do_GET base self) = fst (base self)
     \<and> snd (do_GET base self) = snd (base self)"
proof -
  have "do_GET base h = base h" for h
    by (simp add: do_GET_def)
  then have "do_GET base = base"
    by (rule ext)
  then show ?thesis
    by simp
qed

section \<open>Startup\<close>


lemma stdout_main: "stdout (snd (main E argv)) = stdout (snd (run_server E 8000 start))"
  by (simp add: main_def split: prod.splits result.splits)

text \<open>
  C6. Run as a script, the program asks for one TCP listener, at the address
  \<open>("", 8000)\<close>: it is the first call it makes and the only address it ever asks for,
  whatever the environment answers. The command line plays no part: two runs that
  differ only in their arguments behave the same, so no argument changes the port.
\<close>

theorem main_binds_default_port:
  "addresses (calls (snd (main E argv))) = [('''', 8000)]
   \<and> take 1 (calls (snd (main E argv))) = [TCPServer_call ('''', 8000) ''MyHttpRequestHandler'']
   \<and> main E argv = main E argv'"
  by (simp add: main_def run_server_def called_def print_def start_def Let_def
      split: result.splits)

text \<open>
  C5. When the listener cannot be bound, that is when constructing the
  \<open>TCPServer\<close> at \<open>("", 8000)\<close> raises, the process exits with status 1 and the
  traceback of that exception on standard error, which is not empty. The one call the
  program made is that constructor call at port 8000: it does not try again, does not
  try another port and never calls \<open>serve_forever\<close>.
\<close>

theorem bind_failure_is_fatal:
  assumes "TCPServer E ('''', 8000) = Raises e"
  shows "fst (main E argv) = Exited 1
     \<and> stderr (snd (main E argv)) = traceback e \<and> traceback e \<noteq> []
     \<and> calls (snd (main E argv)) = [TCPServer_call ('''', 8000) ''MyHttpRequestHandler'']"
  using assms
  by (simp add: main_def run_server_def called_def start_def traceback_def Let_def
      split: exn.splits)

theorem bind_failure_is_fatal_witness:
  "TCPServer \<lparr>TCPServer = \<lambda>a. Raises (OSError ''[Errno 98] Address already in use''),
              serve_forever = Never_returns\<rparr> ('''', 8000)
     = Raises (OSError ''[Errno 98] Address already in use'')
   \<and> main \<lparr>TCPServer = \<lambda>a. Raises (OSError ''[Errno 98] Address already in use''),
              serve_forever = Never_returns\<rparr> [''main.py'']
     = (Exited 1,
        \<lparr>stdout = [],
         stderr = [''Traceback (most recent call last):'',
                   ''OSError: [Errno 98] Address already in use''],
         calls = [TCPServer_call ('''', 8000) ''MyHttpRequestHandler'']\<rparr>)"
  using bind_failure_is_fatal
    [of "\<lparr>TCPServer = \<lambda>a. Raises (OSError ''[Errno 98] Address already in use''),
              serve_forever = Never_returns\<rparr>"
        "OSError ''[Errno 98] Address already in use''" "[''main.py'']"]
  by (simp add: main_def run_server_def called_def start_def traceback_def Let_def)

section \<open>The announcement\<close>



text \<open>
  C10. The announcement is printed only once the listener is bound: in every run where
  constructing the \<open>TCPServer\<close> does not return, \<open>run_server\<close> prints nothing, and the
  script's standard output stays empty, so no \<open>Serving at port\<close> line appears.
\<close>

theorem announcement_only_after_bind:
  assumes "TCPServer E ('''', port) \<noteq> Returns ()"
  shows "stdout (snd (run_server E port p)) = stdout p
     \<and> (port = 8000 \<longrightarrow> stdout (snd (main E argv)) = [])"
proof -
  have run: "stdout (snd (run_server E port q)) = stdout q" for q
    using assms
    by (cases "TCPServer E ('''', port)") (simp_all add: run_server_def called_def Let_def)
  from run [of start] have "port = 8000 \<Longrightarrow> stdout (snd (main E argv)) = []"
    by (simp add: stdout_main start_def)
  with run show ?thesis
    by blast
qed

theorem announcement_only_after_bind_witness:
  "TCPServer \<lparr>TCPServer = \<lambda>a. Raises (OSError ''[Errno 98] Address already in use''),
              serve_forever = Never_returns\<rparr> ('''', 8000) \<noteq> Returns ()
   \<and> stdout (snd (main \<lparr>TCPServer = \<lambda>a. Raises (OSError ''[Errno 98] Address already in use''),
              serve_forever = Never_returns\<rparr> [''main.py''])) = []"
  using announcement_only_after_bind
    [of "\<lparr>TCPServer = \<lambda>a. Raises (OSError ''[Errno 98] Address already in use''),
              serve_forever = Never_returns\<rparr>" 8000 start "[''main.py'']"]
  by simp

end
